theory Spec2Isabelle
  imports Complex_Main
begin

section \<open>The document ingestion service (src/services/documentService.ts)\<close>

text \<open>
  The service drives three collaborators: a document processor (parser and chunker), an
  embedding manager and a vector store. Their classes are imported by the source file;
  the service only calls their methods. Every method is asynchronous and may reject, so a
  method is a function from the state of the outside world (the store's contents, the
  network, the clock) to what the awaited promise settles to, and the world afterwards.
\<close>

subsection \<open>Thrown values\<close>

text \<open>
  What a \<^verbatim>\<open>throw\<close> or a rejected promise carries, as far as the \<^verbatim>\<open>catch\<close> block of
  \<^verbatim>\<open>uploadDocument\<close> can tell them apart by reading \<^verbatim>\<open>error.message\<close>:
  an \<^verbatim>\<open>Error\<close> object with its message, a value without a \<^verbatim>\<open>message\<close> property (the read
  gives \<^verbatim>\<open>undefined\<close>), and \<^verbatim>\<open>null\<close> or \<^verbatim>\<open>undefined\<close> (the read itself raises a TypeError).
\<close>

datatype thrown = JsError string | NoMessage | Nullish

text \<open>What leaves \<^verbatim>\<open>uploadDocument\<close> uncaught: the TypeError of the \<^verbatim>\<open>catch\<close> block.\<close>

datatype uncaught = TypeError

type_synonym ('w, 'a) async = "'w \<Rightarrow> (thrown + 'a) \<times> 'w"

subsection \<open>Data\<close>

text \<open>
  The browser's \<^verbatim>\<open>File\<close>: \<^verbatim>\<open>name\<close>, \<^verbatim>\<open>size\<close> and \<^verbatim>\<open>type\<close> are the fields the service
  reads. Strings are byte strings (UTF-8); the service only compares and concatenates them.
\<close>

record File =
  name :: string
  size' :: nat
  type' :: string
  bytes :: "nat list"

datatype Status = pending | processing | completed | error

record DocumentStats =
  fileName :: string
  fileSize :: nat
  totalChunks :: nat
  processingTime :: int
  status :: Status
  error' :: "string option"

record ProcessingConfig =
  chunkSize :: int
  overlapSize :: int
  model :: string

text \<open>The object literal \<^verbatim>\<open>{ chunkSize, overlapSize }\<close> handed to \<^verbatim>\<open>processDocument\<close>.\<close>

record ProcessingOptions =
  opt_chunkSize :: int
  opt_overlapSize :: int

text \<open>
  What \<^verbatim>\<open>processDocument\<close> resolves to; the service reads \<^verbatim>\<open>chunks\<close> only, and guards
  against its absence with \<^verbatim>\<open>|| []\<close>.
\<close>

record ProcessedDocument =
  chunks :: "string list option"

record Metadata =
  source :: string
  index :: nat

record Payload =
  text' :: string
  metadata :: Metadata

text \<open>
  The objects built for \<^verbatim>\<open>storeVectors\<close>. \<^verbatim>\<open>vector\<close> is \<^verbatim>\<open>vectors[index]\<close>, which is
  \<^verbatim>\<open>undefined\<close> out of range: an option.
\<close>

record 'v VectorRecord =
  id' :: string
  vector :: "'v option"
  payload :: Payload

subsection \<open>The collaborators\<close>

record 'w DocumentProcessor =
  processDocument :: "File \<Rightarrow> ProcessingOptions \<Rightarrow> ('w, ProcessedDocument) async"

text \<open>
  The embedding manager keeps the three arguments of its constructor; the behaviour of
  \<^verbatim>\<open>embedDocuments\<close> is the class's own.
\<close>

record ('w, 'v) EmbeddingManager =
  apiKey :: string
  apiBase :: string
  modelName :: string
  embedDocuments :: "string list \<Rightarrow> ('w, 'v list) async"

record ('w, 'v) VectorStore =
  storeVectors :: "'v VectorRecord list \<Rightarrow> ('w, unit) async"
  store_getDocumentStats :: "string \<Rightarrow> ('w, DocumentStats option) async"
  store_listDocuments :: "('w, string list) async"

text \<open>The private fields of the class, and the clock that \<^verbatim>\<open>Date.now()\<close> reads.\<close>

record ('w, 'v) DocumentService =
  documentProcessor :: "'w DocumentProcessor"
  embeddingManager :: "('w, 'v) EmbeddingManager"
  vectorStore :: "('w, 'v) VectorStore"
  Date_now :: "'w \<Rightarrow> int"

subsection \<open>Calls made during a run\<close>

text \<open>
  A run of \<^verbatim>\<open>uploadDocument\<close> records, in order, the collaborator calls it makes and their
  arguments, next to what the call settles to and the world it leaves.
\<close>

datatype 'v call =
    Call_processDocument File ProcessingOptions
  | Call_embedDocuments "string list"
  | Call_storeVectors "'v VectorRecord list"

record ('r, 'w, 'v) run =
  outcome :: 'r
  world :: 'w
  calls :: "'v call list"

subsection \<open>validateFile\<close>

definition allowedTypes :: "string list" where
  "allowedTypes =
     [''application/pdf'',
      ''text/plain'',
      ''text/markdown'',
      ''application/msword'',
      ''application/vnd.openxmlformats-officedocument.wordprocessingml.document'']"

definition validateFile :: "File \<Rightarrow> bool" where
  "validateFile file = (type' file \<in> set allowedTypes)"

subsection \<open>uploadDocument\<close>

text \<open>The message of the Error thrown for an unsupported type, as UTF-8 bytes.\<close>

definition unsupported_message :: string where
  "unsupported_message =
     [CHR 0xE4, CHR 0xB8, CHR 0x8D, CHR 0xE6, CHR 0x94, CHR 0xAF,
      CHR 0xE6, CHR 0x8C, CHR 0x81, CHR 0xE7, CHR 0x9A, CHR 0x84,
      CHR 0xE6, CHR 0x96, CHR 0x87, CHR 0xE4, CHR 0xBB, CHR 0xB6,
      CHR 0xE6, CHR 0xA0, CHR 0xBC, CHR 0xE5, CHR 0xBC, CHR 0x8F]"

text \<open>
  The template literal renders \<^verbatim>\<open>index\<close>, an array index, in decimal.
\<close>

definition digit :: "nat \<Rightarrow> char" where
  "digit d = ''0123456789'' ! d"

fun decimal :: "nat \<Rightarrow> string" where
  "decimal n = (if n < 10 then [digit n] else decimal (n div 10) @ [digit (n mod 10)])"

declare decimal.simps [simp del]

text \<open>\<^verbatim>\<open>xs[i]\<close> on an array: \<^verbatim>\<open>undefined\<close> out of range.\<close>

definition js_index :: "'a list \<Rightarrow> nat \<Rightarrow> 'a option" where
  "js_index xs i = (if i < length xs then Some (xs ! i) else None)"

text \<open>\<^verbatim>\<open>textArray.map((text, index) => ({ ... }))\<close>, lines 55 to 65.\<close>

definition vectorDoc :: "File \<Rightarrow> 'v list \<Rightarrow> nat \<times> string \<Rightarrow> 'v VectorRecord" where
  "vectorDoc file vectors = (\<lambda>(i, t).
     \<lparr>id' = name file @ ''-'' @ decimal i,
      vector = js_index vectors i,
      payload = \<lparr>text' = t, metadata = \<lparr>source = name file, index = i\<rparr>\<rparr>\<rparr>)"

definition vectorDocs :: "File \<Rightarrow> string list \<Rightarrow> 'v list \<Rightarrow> 'v VectorRecord list" where
  "vectorDocs file textArray vectors = map (vectorDoc file vectors) (enumerate 0 textArray)"

text \<open>\<^verbatim>\<open>textChunks.chunks || []\<close>, line 50: an array is truthy, also when empty.\<close>

definition textArray :: "ProcessedDocument \<Rightarrow> string list" where
  "textArray textChunks = (case chunks textChunks of None \<Rightarrow> [] | Some cs \<Rightarrow> cs)"

text \<open>The body of the \<^verbatim>\<open>try\<close> block, lines 37 to 75: \<open>Inl\<close> is what it throws.\<close>

definition try_block ::
  "('w, 'v) DocumentService \<Rightarrow> File \<Rightarrow> ProcessingConfig \<Rightarrow> 'w
     \<Rightarrow> (thrown + DocumentStats, 'w, 'v) run" where
  "try_block svc file config w0 =
     (if \<not> validateFile file
      then \<lparr>outcome = Inl (JsError unsupported_message), world = w0, calls = []\<rparr>
      else
        let opts = \<lparr>opt_chunkSize = chunkSize config, opt_overlapSize = overlapSize config\<rparr>;
            c1 = [Call_processDocument file opts]
        in case processDocument (documentProcessor svc) file opts w0 of
             (Inl e, w1) \<Rightarrow> \<lparr>outcome = Inl e, world = w1, calls = c1\<rparr>
           | (Inr textChunks, w1) \<Rightarrow>
              (let texts = textArray textChunks;
                   c2 = c1 @ [Call_embedDocuments texts]
               in case embedDocuments (embeddingManager svc) texts w1 of
                    (Inl e, w2) \<Rightarrow> \<lparr>outcome = Inl e, world = w2, calls = c2\<rparr>
                  | (Inr vectors, w2) \<Rightarrow>
                     (let docs = vectorDocs file texts vectors;
                          c3 = c2 @ [Call_storeVectors docs]
                      in case storeVectors (vectorStore svc) docs w2 of
                           (Inl e, w3) \<Rightarrow> \<lparr>outcome = Inl e, world = w3, calls = c3\<rparr>
                         | (Inr u, w3) \<Rightarrow>
                             \<lparr>outcome = Inr
                                \<lparr>fileName = name file,
                                 fileSize = size' file,
                                 totalChunks = length texts,
                                 processingTime = Date_now svc w3,
                                 status = completed,
                                 error' = None\<rparr>,
                              world = w3, calls = c3\<rparr>)))"

text \<open>
  The \<^verbatim>\<open>catch\<close> block, lines 77 to 86. Reading \<^verbatim>\<open>error.message\<close> of \<^verbatim>\<open>null\<close> or
  \<^verbatim>\<open>undefined\<close> raises a TypeError, which nothing catches.
\<close>

definition catch_block ::
  "('w, 'v) DocumentService \<Rightarrow> File \<Rightarrow> thrown \<Rightarrow> 'w \<Rightarrow> uncaught + DocumentStats" where
  "catch_block svc file err w =
     (case err of
        Nullish \<Rightarrow> Inl TypeError
      | NoMessage \<Rightarrow> Inr
          \<lparr>fileName = name file, fileSize = size' file, totalChunks = 0,
           processingTime = Date_now svc w, status = error, error' = None\<rparr>
      | JsError msg \<Rightarrow> Inr
          \<lparr>fileName = name file, fileSize = size' file, totalChunks = 0,
           processingTime = Date_now svc w, status = error, error' = Some msg\<rparr>)"

definition uploadDocument ::
  "('w, 'v) DocumentService \<Rightarrow> File \<Rightarrow> ProcessingConfig \<Rightarrow> 'w
     \<Rightarrow> (uncaught + DocumentStats, 'w, 'v) run" where
  "uploadDocument svc file config w0 =
     (let r = try_block svc file config w0
      in case outcome r of
           Inr stats \<Rightarrow> \<lparr>outcome = Inr stats, world = world r, calls = calls r\<rparr>
         | Inl err \<Rightarrow>
             \<lparr>outcome = catch_block svc file err (world r), world = world r, calls = calls r\<rparr>)"

subsection \<open>The read path\<close>

definition getDocumentStats ::
  "('w, 'v) DocumentService \<Rightarrow> string \<Rightarrow> ('w, DocumentStats option) async" where
  "getDocumentStats svc fileName' = store_getDocumentStats (vectorStore svc) fileName'"

definition listDocuments :: "('w, 'v) DocumentService \<Rightarrow> ('w, string list) async" where
  "listDocuments svc = store_listDocuments (vectorStore svc)"

subsection \<open>The constructor\<close>

text \<open>
  \<^verbatim>\<open>process.env\<close> maps a variable to its string, or to \<^verbatim>\<open>undefined\<close> when it is unset.
  \<^verbatim>\<open>a || b\<close> is \<^verbatim>\<open>a\<close> unless \<^verbatim>\<open>a\<close> is falsy: \<^verbatim>\<open>undefined\<close> or the empty string.
\<close>

definition js_or :: "string option \<Rightarrow> string \<Rightarrow> string" where
  "js_or a b = (case a of None \<Rightarrow> b | Some v \<Rightarrow> if v = [] then b else v)"

text \<open>
  The three imported classes, as far as the constructor uses them: the processor and the
  store it builds without arguments, and \<^verbatim>\<open>embedDocuments\<close> of an embedding manager built
  from an API key, a base URL and a model name.
\<close>

record ('w, 'v) classes =
  new_DocumentProcessor :: "'w DocumentProcessor"
  new_EmbeddingManager_embedDocuments ::
    "string \<Rightarrow> string \<Rightarrow> string \<Rightarrow> string list \<Rightarrow> ('w, 'v list) async"
  new_VectorStore :: "('w, 'v) VectorStore"
  clock :: "'w \<Rightarrow> int"

definition new_EmbeddingManager ::
  "('w, 'v) classes \<Rightarrow> string \<Rightarrow> string \<Rightarrow> string \<Rightarrow> ('w, 'v) EmbeddingManager" where
  "new_EmbeddingManager cls k b m =
     \<lparr>apiKey = k, apiBase = b, modelName = m,
      embedDocuments = new_EmbeddingManager_embedDocuments cls k b m\<rparr>"

definition constructor ::
  "('w, 'v) classes \<Rightarrow> (string \<rightharpoonup> string) \<Rightarrow> ('w, 'v) DocumentService" where
  "constructor cls env =
     \<lparr>documentProcessor = new_DocumentProcessor cls,
      embeddingManager = new_EmbeddingManager cls
        (js_or (env ''DEEPSEEK_API_KEY'') ''mock-api-key'')
        (js_or (env ''DEEPSEEK_API_BASE'') ''https://api.deepseek.com'')
        (js_or (env ''EMBEDDING_MODEL'') ''mock-embedding-model''),
      vectorStore = new_VectorStore cls,
      Date_now = clock cls\<rparr>"

section \<open>The Chunker\<close>

text \<open>
  Modelled from the spec: the Chunker of section 4.2. Its code (the document processor
  that \<^verbatim>\<open>documentService.ts\<close> imports) is not among the sources. The spec's words: chunk
  \<open>i\<close> starts at offset \<open>i * (chunkSize - overlapSize)\<close> and spans up to \<open>chunkSize\<close>
  characters, the final chunk may be shorter, consecutive chunks share exactly
  \<open>overlapSize\<close> characters, a text no longer than \<open>chunkSize\<close> yields exactly one chunk,
  and \<open>overlapSize \<ge> chunkSize\<close> fails with \<open>InvalidConfig\<close>. The loop below emits the slice
  at the current offset and stops with the first slice that reaches the end of the text.
\<close>

datatype chunker_error = InvalidConfig

function chunks_from :: "'a list \<Rightarrow> nat \<Rightarrow> nat \<Rightarrow> nat \<Rightarrow> 'a list list" where
  "chunks_from content C step offset =
     (if step = 0 \<or> length content \<le> offset + C then [take C (drop offset content)]
      else take C (drop offset content) # chunks_from content C step (offset + step))"
  by pat_completeness auto
termination
  by (relation "measure (\<lambda>(content, C, step, offset). length content - offset)") auto

declare chunks_from.simps [simp del]

text \<open>Modelled from the spec: the Chunker's contract with its \<open>InvalidConfig\<close> failure.\<close>

definition Chunker :: "'a list \<Rightarrow> nat \<Rightarrow> nat \<Rightarrow> chunker_error + 'a list list" where
  "Chunker content chunkSize' overlapSize' =
     (if chunkSize' \<le> overlapSize' then Inl InvalidConfig
      else Inr (chunks_from content chunkSize' (chunkSize' - overlapSize') 0))"

section \<open>A concrete service\<close>

text \<open>
  Collaborators over a small world (a clock and the stored records), to run the service
  on. The mode selects which collaborator misbehaves.
\<close>

record demo_world =
  now_ms :: int
  stored :: "int list VectorRecord list"

datatype demo_mode =
  AllOk | ParseFails | ParseRejectsNull | EmbedFails | EmbedRejectsEmpty | EmbedShort
  | StoreFails

definition demo_service ::
  "demo_mode \<Rightarrow> string list option \<Rightarrow> (demo_world, int list) DocumentService" where
  "demo_service m cs =
     \<lparr>documentProcessor =
        \<lparr>processDocument = (\<lambda>file opts w.
           (if m = ParseFails then Inl (JsError ''corrupt file'')
            else if m = ParseRejectsNull then Inl Nullish
            else Inr \<lparr>chunks = cs\<rparr>,
            w\<lparr>now_ms := now_ms w + 5\<rparr>))\<rparr>,
      embeddingManager =
        \<lparr>apiKey = ''mock-api-key'', apiBase = ''https://api.deepseek.com'',
         modelName = ''mock-embedding-model'',
         embedDocuments = (\<lambda>texts w.
           (if m = EmbedFails then Inl (JsError ''embedding failed'')
            else if m = EmbedRejectsEmpty \<and> texts = [] then Inl (JsError ''empty input'')
            else Inr (map (\<lambda>t. [int (length t)])
                        (if m = EmbedShort then butlast texts else texts)),
            w\<lparr>now_ms := now_ms w + 40\<rparr>))\<rparr>,
      vectorStore =
        \<lparr>storeVectors = (\<lambda>docs w.
           if m = StoreFails
           then (Inl (JsError ''store unavailable''), w\<lparr>now_ms := now_ms w + 3\<rparr>)
           else (Inr (), w\<lparr>now_ms := now_ms w + 3, stored := stored w @ docs\<rparr>)),
         store_getDocumentStats = (\<lambda>n w. (Inr None, w)),
         store_listDocuments = (\<lambda>w.
           (Inr (remdups (map (\<lambda>d. source (metadata (payload d))) (stored w))), w))\<rparr>,
      Date_now = now_ms\<rparr>"

definition demo_file :: File where
  "demo_file = \<lparr>name = ''a.txt'', size' = 3, type' = ''text/plain'', bytes = [97, 98, 99]\<rparr>"

definition demo_png :: File where
  "demo_png = \<lparr>name = ''a.png'', size' = 1, type' = ''image/png'', bytes = [137]\<rparr>"

definition demo_config :: ProcessingConfig where
  "demo_config = \<lparr>chunkSize = 2, overlapSize = 1, model = ''m''\<rparr>"

definition demo_world0 :: demo_world where
  "demo_world0 = \<lparr>now_ms = 1000, stored = []\<rparr>"

text \<open>The classes behind the concrete service, and an environment with all three variables set.\<close>

definition demo_classes :: "(demo_world, int list) classes" where
  "demo_classes =
     \<lparr>new_DocumentProcessor = documentProcessor (demo_service AllOk None),
      new_EmbeddingManager_embedDocuments =
        (\<lambda>k b m. embedDocuments (embeddingManager (demo_service AllOk None))),
      new_VectorStore = vectorStore (demo_service AllOk None),
      clock = now_ms\<rparr>"

definition demo_env :: "string \<rightharpoonup> string" where
  "demo_env =
     [''DEEPSEEK_API_KEY'' \<mapsto> ''sk-1'',
      ''DEEPSEEK_API_BASE'' \<mapsto> ''http://localhost:8080'',
      ''EMBEDDING_MODEL'' \<mapsto> ''text-embedding'']"

section \<open>Auxiliary facts\<close>

subsection \<open>The try block, stage by stage\<close>

text \<open>
  What the try block yields when validation fails, when a call rejects, and when the
  storage step is reached.
\<close>

lemma try_block_invalid:
  "\<not> validateFile file \<Longrightarrow>
   try_block svc file config w0 =
     \<lparr>outcome = Inl (JsError unsupported_message), world = w0, calls = []\<rparr>"
  by (simp add: try_block_def)

lemma try_block_parse_fails:
  "validateFile file \<Longrightarrow>
   processDocument (documentProcessor svc) file
     \<lparr>opt_chunkSize = chunkSize config, opt_overlapSize = overlapSize config\<rparr> w0 = (Inl e, w1) \<Longrightarrow>
   try_block svc file config w0 =
     \<lparr>outcome = Inl e, world = w1,
      calls = [Call_processDocument file
                \<lparr>opt_chunkSize = chunkSize config, opt_overlapSize = overlapSize config\<rparr>]\<rparr>"
  by (simp add: try_block_def)

lemma try_block_embed_fails:
  "validateFile file \<Longrightarrow>
   processDocument (documentProcessor svc) file
     \<lparr>opt_chunkSize = chunkSize config, opt_overlapSize = overlapSize config\<rparr> w0 = (Inr pd, w1) \<Longrightarrow>
   embedDocuments (embeddingManager svc) (textArray pd) w1 = (Inl e, w2) \<Longrightarrow>
   try_block svc file config w0 =
     \<lparr>outcome = Inl e, world = w2,
      calls = [Call_processDocument file
                \<lparr>opt_chunkSize = chunkSize config, opt_overlapSize = overlapSize config\<rparr>,
               Call_embedDocuments (textArray pd)]\<rparr>"
  by (simp add: try_block_def)

lemma try_block_store:
  "validateFile file \<Longrightarrow>
   processDocument (documentProcessor svc) file
     \<lparr>opt_chunkSize = chunkSize config, opt_overlapSize = overlapSize config\<rparr> w0 = (Inr pd, w1) \<Longrightarrow>
   embedDocuments (embeddingManager svc) (textArray pd) w1 = (Inr vectors, w2) \<Longrightarrow>
   storeVectors (vectorStore svc) (vectorDocs file (textArray pd) vectors) w2 = (r, w3) \<Longrightarrow>
   try_block svc file config w0 =
     \<lparr>outcome =
        (case r of
           Inl e \<Rightarrow> Inl e
         | Inr u \<Rightarrow> Inr \<lparr>fileName = name file, fileSize = size' file,
                         totalChunks = length (textArray pd),
                         processingTime = Date_now svc w3, status = completed, error' = None\<rparr>),
      world = w3,
      calls = [Call_processDocument file
                \<lparr>opt_chunkSize = chunkSize config, opt_overlapSize = overlapSize config\<rparr>,
               Call_embedDocuments (textArray pd),
               Call_storeVectors (vectorDocs file (textArray pd) vectors)]\<rparr>"
  by (simp add: try_block_def Let_def split: sum.splits)

lemma try_block_Inr_completed:
  "outcome (try_block svc file config w0) = Inr stats \<Longrightarrow> status stats = completed"
  by (auto simp add: try_block_def Let_def split: if_splits prod.splits sum.splits)

lemma catch_block_Inr_error:
  "catch_block svc file e w = Inr stats \<Longrightarrow> status stats = error"
  by (auto simp add: catch_block_def split: thrown.splits)

lemma uploadDocument_calls:
  "calls (uploadDocument svc file config w0) = calls (try_block svc file config w0)"
  by (simp add: uploadDocument_def Let_def split: sum.splits)

lemma validateFile_iff:
  "validateFile file \<longleftrightarrow>
     type' file \<in> {''application/pdf'', ''text/plain'', ''text/markdown'', ''application/msword'',
        ''application/vnd.openxmlformats-officedocument.wordprocessingml.document''}"
  by (simp add: validateFile_def allowedTypes_def)

subsection \<open>The records built for the store\<close>

text \<open>
  The map over the enumerated chunks, by index.
\<close>

lemma vectorDocs_eq:
  "vectorDocs file ts vs =
     map (\<lambda>i. \<lparr>id' = name file @ ''-'' @ decimal i, vector = js_index vs i,
               payload = \<lparr>text' = ts ! i, metadata = \<lparr>source = name file, index = i\<rparr>\<rparr>\<rparr>)
       [0..<length ts]"
  by (rule nth_equalityI) (simp_all add: vectorDocs_def vectorDoc_def nth_enumerate_eq)

lemma decimal_0: "decimal 0 = ''0''"
  by (simp add: decimal.simps digit_def)

lemma decimal_1: "decimal (Suc 0) = ''1''"
  by (simp add: decimal.simps digit_def)

subsection \<open>Ceiling division\<close>

text \<open>
  The ceiling of a quotient of naturals, by integer division.
\<close>

lemma ceil_div_nat:
  assumes "0 < (b::nat)"
  shows "(a + b - 1) div b = (if a mod b = 0 then a div b else a div b + 1)"
proof -
  define q r k where "q = a div b" and "r = a mod b" and "k = b * q"
  have a: "a = k + r" by (simp add: q_def r_def k_def)
  have r: "r < b" using assms by (simp add: r_def)
  have k1: "b * Suc q = k + b" and k2: "b * Suc (Suc q) = k + b + b"
    by (simp_all add: k_def)
  show ?thesis
  proof (cases "r = 0")
    case True
    have "b * q \<le> a + b - 1" "a + b - 1 < b * Suc q"
      unfolding k1 using a r True assms by (simp_all add: k_def)
    then have "(a + b - 1) div b = q" by (rule div_nat_eqI)
    with True show ?thesis by (simp add: q_def r_def)
  next
    case False
    have "b * Suc q \<le> a + b - 1" "a + b - 1 < b * Suc (Suc q)"
      unfolding k1 k2 using a r False by arith+
    then have "(a + b - 1) div b = Suc q" by (rule div_nat_eqI)
    with False show ?thesis by (simp add: q_def r_def)
  qed
qed

lemma nat_ceiling_div:
  assumes "0 < b"
  shows "nat \<lceil>real a / real b\<rceil> = (a + b - 1) div b"
proof -
  have "\<lceil>real a / real b\<rceil> = \<lceil>of_int (int a) / (of_int (int b) :: real)\<rceil>"
    by simp
  also have "\<dots> = - (- int a div int b)"
    by (rule ceiling_divide_eq_div)
  also have "\<dots> = (if int a mod int b = 0 then int a div int b else int a div int b + 1)"
    using assms by (simp add: zdiv_zminus1_eq_if)
  also have "\<dots> = int (if a mod b = 0 then a div b else a div b + 1)"
  proof -
    have m: "(int a mod int b = 0) = (a mod b = 0)"
      by (metis of_nat_mod of_nat_eq_0_iff)
    have d: "int a div int b = int (a div b)"
      by (rule of_nat_div [symmetric])
    show ?thesis unfolding m d by (cases "a mod b = 0") simp_all
  qed
  finally have "\<lceil>real a / real b\<rceil> = int ((a + b - 1) div b)"
    using assms by (simp only: ceil_div_nat)
  then show ?thesis by simp
qed

lemma div_step_nat:
  assumes "0 < (s::nat)"
  shows "(x + s + (s - 1)) div s = Suc ((x + (s - 1)) div s)"
proof -
  have "x + s + (s - 1) = (x + (s - 1)) + s" by simp
  then have "(x + s + (s - 1)) div s = ((x + (s - 1)) + s) div s" by (rule arg_cong)
  also have "\<dots> = (x + (s - 1)) div s + 1"
    using assms by (intro div_add_self2) simp
  finally show ?thesis by simp
qed

subsection \<open>The chunk loop\<close>

text \<open>
  Length and elements of the list that the loop started at an offset returns.
\<close>

lemma chunks_from_length:
  "0 < s \<Longrightarrow>
   length (chunks_from t C s p) = Suc ((length t - (p + C) + (s - 1)) div s)"
proof (induction t C s p rule: chunks_from.induct)
  case (1 t C s p)
  show ?case
  proof (cases "length t \<le> p + C")
    case True
    with "1.prems" show ?thesis by (subst chunks_from.simps) simp
  next
    case False
    define d where "d = length t - (p + C)"
    define d' where "d' = length t - (p + s + C)"
    have unfold: "length (chunks_from t C s p) = Suc (length (chunks_from t C s (p + s)))"
      using False "1.prems" by (subst chunks_from.simps) simp
    have ih: "length (chunks_from t C s (p + s)) = Suc ((d' + (s - 1)) div s)"
      using "1.IH" False "1.prems" by (simp add: d'_def)
    have "(d + (s - 1)) div s = Suc ((d' + (s - 1)) div s)"
    proof (cases "s \<le> d")
      case True
      then have "d = d' + s" by (simp add: d_def d'_def)
      with div_step_nat [OF "1.prems", of d'] show ?thesis by simp
    next
      case near: False
      with False have "d' = 0" "0 < d" by (simp_all add: d_def d'_def)
      with near "1.prems" have "s * 1 \<le> d + (s - 1)" "d + (s - 1) < s * Suc 1"
        by simp_all
      then have "(d + (s - 1)) div s = 1" by (rule div_nat_eqI)
      with \<open>d' = 0\<close> "1.prems" show ?thesis by simp
    qed
    with unfold ih show ?thesis by (simp add: d_def)
  qed
qed

lemma chunks_from_nth:
  "0 < s \<Longrightarrow> i < length (chunks_from t C s p) \<Longrightarrow>
   chunks_from t C s p ! i = take C (drop (p + i * s) t)"
proof (induction t C s p arbitrary: i rule: chunks_from.induct)
  case (1 t C s p)
  show ?case
  proof (cases "length t \<le> p + C")
    case True
    with "1.prems" show ?thesis
      by (simp add: chunks_from.simps [of t C s p])
  next
    case False
    show ?thesis
    proof (cases i)
      case 0
      then show ?thesis by (subst chunks_from.simps) simp
    next
      case (Suc j)
      with "1.prems" False have "j < length (chunks_from t C s (p + s))"
        by (simp add: chunks_from.simps [of t C s p])
      with "1.IH" [of j] False "1.prems"
      have "chunks_from t C s (p + s) ! j = take C (drop (p + s + j * s) t)"
        by simp
      with Suc False "1.prems" show ?thesis
        by (subst chunks_from.simps) (simp add: add.assoc)
    qed
  qed
qed

subsection \<open>The concrete service\<close>

text \<open>
  What the concrete collaborators settle to.
\<close>

lemmas demo_defs = demo_service_def demo_file_def demo_png_def demo_config_def demo_world0_def

lemmas run_defs = uploadDocument_def try_block_def catch_block_def Let_def validateFile_def
  allowedTypes_def textArray_def vectorDocs_def vectorDoc_def js_index_def decimal_0 decimal_1

lemma demo_valid: "validateFile demo_file"
  by (simp add: validateFile_def allowedTypes_def demo_file_def)

lemma demo_invalid: "\<not> validateFile demo_png"
  by (simp add: validateFile_def allowedTypes_def demo_png_def)

lemma demo_process:
  "m \<notin> {ParseFails, ParseRejectsNull} \<Longrightarrow>
   processDocument (documentProcessor (demo_service m cs)) demo_file
     \<lparr>opt_chunkSize = chunkSize demo_config, opt_overlapSize = overlapSize demo_config\<rparr>
     demo_world0 = (Inr \<lparr>chunks = cs\<rparr>, \<lparr>now_ms = 1005, stored = []\<rparr>)"
  by (simp add: demo_defs)

lemma demo_embed:
  "m \<notin> {EmbedFails, EmbedRejectsEmpty, EmbedShort} \<Longrightarrow>
   embedDocuments (embeddingManager (demo_service m cs)) texts w =
     (Inr (map (\<lambda>t. [int (length t)]) texts), w\<lparr>now_ms := now_ms w + 40\<rparr>)"
  by (simp add: demo_defs)

lemma demo_store:
  "m \<noteq> StoreFails \<Longrightarrow>
   storeVectors (vectorStore (demo_service m cs)) docs w =
     (Inr (), w\<lparr>now_ms := now_ms w + 3, stored := stored w @ docs\<rparr>)"
  by (simp add: demo_defs)

section \<open>Properties of the service\<close>

subsection \<open>Failures become error records\<close>

text \<open>
  C1: a failure in any of the steps 1 to 4 (validation, parsing and chunking, embedding,
  storing) that raises an Error with message \<open>msg\<close> is caught: \<^verbatim>\<open>uploadDocument\<close> returns
  a DocumentStats with status \<open>error\<close>, \<open>msg\<close> in the error field, \<open>totalChunks = 0\<close> and the
  name and size of the input file. The time stamp is read after the failing call.
\<close>

theorem uploadDocument_failure_returns_error_stats:
  "(\<not> validateFile file \<longrightarrow>
      outcome (uploadDocument svc file config w0) =
        Inr \<lparr>fileName = name file, fileSize = size' file, totalChunks = 0,
             processingTime = Date_now svc w0, status = error,
             error' = Some unsupported_message\<rparr>)
   \<and> (validateFile file
        \<and> processDocument (documentProcessor svc) file
            \<lparr>opt_chunkSize = chunkSize config, opt_overlapSize = overlapSize config\<rparr> w0 =
            (Inl (JsError msg), w1) \<longrightarrow>
      outcome (uploadDocument svc file config w0) =
        Inr \<lparr>fileName = name file, fileSize = size' file, totalChunks = 0,
             processingTime = Date_now svc w1, status = error, error' = Some msg\<rparr>)
   \<and> (validateFile file
        \<and> processDocument (documentProcessor svc) file
            \<lparr>opt_chunkSize = chunkSize config, opt_overlapSize = overlapSize config\<rparr> w0 =
            (Inr pd, w1)
        \<and> embedDocuments (embeddingManager svc) (textArray pd) w1 = (Inl (JsError msg), w2) \<longrightarrow>
      outcome (uploadDocument svc file config w0) =
        Inr \<lparr>fileName = name file, fileSize = size' file, totalChunks = 0,
             processingTime = Date_now svc w2, status = error, error' = Some msg\<rparr>)
   \<and> (validateFile file
        \<and> processDocument (documentProcessor svc) file
            \<lparr>opt_chunkSize = chunkSize config, opt_overlapSize = overlapSize config\<rparr> w0 =
            (Inr pd, w1)
        \<and> embedDocuments (embeddingManager svc) (textArray pd) w1 = (Inr vectors, w2)
        \<and> storeVectors (vectorStore svc) (vectorDocs file (textArray pd) vectors) w2 =
            (Inl (JsError msg), w3) \<longrightarrow>
      outcome (uploadDocument svc file config w0) =
        Inr \<lparr>fileName = name file, fileSize = size' file, totalChunks = 0,
             processingTime = Date_now svc w3, status = error, error' = Some msg\<rparr>)"
proof (intro conjI impI; (elim conjE)?)
  assume "\<not> validateFile file"
  then show "outcome (uploadDocument svc file config w0) =
        Inr \<lparr>fileName = name file, fileSize = size' file, totalChunks = 0,
             processingTime = Date_now svc w0, status = error,
             error' = Some unsupported_message\<rparr>"
    by (simp add: uploadDocument_def try_block_invalid catch_block_def)
next
  assume "validateFile file"
    and "processDocument (documentProcessor svc) file
            \<lparr>opt_chunkSize = chunkSize config, opt_overlapSize = overlapSize config\<rparr> w0 =
            (Inl (JsError msg), w1)"
  then show "outcome (uploadDocument svc file config w0) =
        Inr \<lparr>fileName = name file, fileSize = size' file, totalChunks = 0,
             processingTime = Date_now svc w1, status = error, error' = Some msg\<rparr>"
    by (simp add: uploadDocument_def try_block_parse_fails catch_block_def)
next
  assume "validateFile file"
    and "processDocument (documentProcessor svc) file
            \<lparr>opt_chunkSize = chunkSize config, opt_overlapSize = overlapSize config\<rparr> w0 =
            (Inr pd, w1)"
    and "embedDocuments (embeddingManager svc) (textArray pd) w1 = (Inl (JsError msg), w2)"
  then show "outcome (uploadDocument svc file config w0) =
        Inr \<lparr>fileName = name file, fileSize = size' file, totalChunks = 0,
             processingTime = Date_now svc w2, status = error, error' = Some msg\<rparr>"
    by (simp add: uploadDocument_def try_block_embed_fails catch_block_def)
next
  assume "validateFile file"
    and "processDocument (documentProcessor svc) file
            \<lparr>opt_chunkSize = chunkSize config, opt_overlapSize = overlapSize config\<rparr> w0 =
            (Inr pd, w1)"
    and "embedDocuments (embeddingManager svc) (textArray pd) w1 = (Inr vectors, w2)"
    and "storeVectors (vectorStore svc) (vectorDocs file (textArray pd) vectors) w2 =
            (Inl (JsError msg), w3)"
  then show "outcome (uploadDocument svc file config w0) =
        Inr \<lparr>fileName = name file, fileSize = size' file, totalChunks = 0,
             processingTime = Date_now svc w3, status = error, error' = Some msg\<rparr>"
    by (simp add: uploadDocument_def try_block_store catch_block_def)
qed

theorem uploadDocument_failure_returns_error_stats_witness:
  "outcome (uploadDocument (demo_service AllOk None) demo_png demo_config demo_world0) =
     Inr \<lparr>fileName = ''a.png'', fileSize = 1, totalChunks = 0, processingTime = 1000,
          status = error, error' = Some unsupported_message\<rparr>
   \<and> outcome (uploadDocument (demo_service ParseFails None) demo_file demo_config demo_world0) =
     Inr \<lparr>fileName = ''a.txt'', fileSize = 3, totalChunks = 0, processingTime = 1005,
          status = error, error' = Some ''corrupt file''\<rparr>
   \<and> outcome (uploadDocument (demo_service EmbedFails (Some [''ab'', ''bc''])) demo_file demo_config demo_world0) =
     Inr \<lparr>fileName = ''a.txt'', fileSize = 3, totalChunks = 0, processingTime = 1045,
          status = error, error' = Some ''embedding failed''\<rparr>
   \<and> outcome (uploadDocument (demo_service StoreFails (Some [''ab'', ''bc''])) demo_file demo_config demo_world0) =
     Inr \<lparr>fileName = ''a.txt'', fileSize = 3, totalChunks = 0, processingTime = 1048,
          status = error, error' = Some ''store unavailable''\<rparr>"
proof -
  have step1: "outcome (uploadDocument (demo_service AllOk None) demo_png demo_config demo_world0) =
     Inr \<lparr>fileName = ''a.png'', fileSize = 1, totalChunks = 0, processingTime = 1000,
          status = error, error' = Some unsupported_message\<rparr>"
    using uploadDocument_failure_returns_error_stats [of demo_png "demo_service AllOk None" demo_config demo_world0,
        THEN conjunct1, rule_format, OF demo_invalid]
    by (simp add: demo_defs)
  have parse: "processDocument (documentProcessor (demo_service ParseFails None)) demo_file
            \<lparr>opt_chunkSize = chunkSize demo_config, opt_overlapSize = overlapSize demo_config\<rparr>
            demo_world0 = (Inl (JsError ''corrupt file''), \<lparr>now_ms = 1005, stored = []\<rparr>)"
    by (simp add: demo_defs)
  have step2: "outcome (uploadDocument (demo_service ParseFails None) demo_file demo_config demo_world0) =
     Inr \<lparr>fileName = ''a.txt'', fileSize = 3, totalChunks = 0, processingTime = 1005,
          status = error, error' = Some ''corrupt file''\<rparr>"
    using uploadDocument_failure_returns_error_stats [of demo_file "demo_service ParseFails None" demo_config demo_world0,
        THEN conjunct2, THEN conjunct1, rule_format, OF conjI, OF demo_valid parse]
    by (simp add: demo_defs)
  have parsed: "\<And>m. m \<notin> {ParseFails, ParseRejectsNull} \<Longrightarrow>
      processDocument (documentProcessor (demo_service m (Some [''ab'', ''bc'']))) demo_file
            \<lparr>opt_chunkSize = chunkSize demo_config, opt_overlapSize = overlapSize demo_config\<rparr>
            demo_world0 = (Inr \<lparr>chunks = Some [''ab'', ''bc'']\<rparr>, \<lparr>now_ms = 1005, stored = []\<rparr>)"
    by (simp add: demo_defs)
  have embed: "embedDocuments (embeddingManager (demo_service EmbedFails (Some [''ab'', ''bc''])))
        (textArray \<lparr>chunks = Some [''ab'', ''bc'']\<rparr>) \<lparr>now_ms = 1005, stored = []\<rparr> =
        (Inl (JsError ''embedding failed''), \<lparr>now_ms = 1045, stored = []\<rparr>)"
    by (simp add: demo_defs)
  have step3: "outcome (uploadDocument (demo_service EmbedFails (Some [''ab'', ''bc''])) demo_file demo_config demo_world0) =
     Inr \<lparr>fileName = ''a.txt'', fileSize = 3, totalChunks = 0, processingTime = 1045,
          status = error, error' = Some ''embedding failed''\<rparr>"
    using uploadDocument_failure_returns_error_stats [of demo_file "demo_service EmbedFails (Some [''ab'', ''bc''])" demo_config demo_world0,
        THEN conjunct2, THEN conjunct2, THEN conjunct1, rule_format,
        OF conjI [OF demo_valid conjI [OF parsed embed]]]
    by (simp add: demo_defs)
  have embedded: "embedDocuments (embeddingManager (demo_service StoreFails (Some [''ab'', ''bc''])))
        (textArray \<lparr>chunks = Some [''ab'', ''bc'']\<rparr>) \<lparr>now_ms = 1005, stored = []\<rparr> =
        (Inr [[2], [2]], \<lparr>now_ms = 1045, stored = []\<rparr>)"
    by (simp add: demo_defs textArray_def)
  have store: "storeVectors (vectorStore (demo_service StoreFails (Some [''ab'', ''bc''])))
        (vectorDocs demo_file (textArray \<lparr>chunks = Some [''ab'', ''bc'']\<rparr>) [[2], [2]])
        \<lparr>now_ms = 1045, stored = []\<rparr> =
        (Inl (JsError ''store unavailable''), \<lparr>now_ms = 1048, stored = []\<rparr>)"
    by (simp add: demo_defs)
  have step4: "outcome (uploadDocument (demo_service StoreFails (Some [''ab'', ''bc''])) demo_file demo_config demo_world0) =
     Inr \<lparr>fileName = ''a.txt'', fileSize = 3, totalChunks = 0, processingTime = 1048,
          status = error, error' = Some ''store unavailable''\<rparr>"
    using uploadDocument_failure_returns_error_stats [of demo_file "demo_service StoreFails (Some [''ab'', ''bc''])" demo_config demo_world0,
        THEN conjunct2, THEN conjunct2, THEN conjunct2, rule_format,
        OF conjI [OF demo_valid conjI [OF parsed conjI [OF embedded store]]]]
    by (simp add: demo_defs)
  from step1 step2 step3 step4 show ?thesis by (intro conjI)
qed

subsection \<open>Validation of the declared type\<close>

text \<open>
  C2: a file is accepted (validation passes and the first call is to the parser) exactly
  when its declared type is one of the five supported ones; for any other type
  \<^verbatim>\<open>uploadDocument\<close> returns an \<open>error\<close> record at once: no collaborator is called and the
  world is left as it was.
\<close>

theorem uploadDocument_validates_declared_type:
  "(type' file \<in> {''application/pdf'', ''text/plain'', ''text/markdown'', ''application/msword'',
        ''application/vnd.openxmlformats-officedocument.wordprocessingml.document''}
      \<longrightarrow> validateFile file
        \<and> hd (calls (uploadDocument svc file config w0)) =
            Call_processDocument file
              \<lparr>opt_chunkSize = chunkSize config, opt_overlapSize = overlapSize config\<rparr>
        \<and> calls (uploadDocument svc file config w0) \<noteq> [])
   \<and> (type' file \<notin> {''application/pdf'', ''text/plain'', ''text/markdown'', ''application/msword'',
        ''application/vnd.openxmlformats-officedocument.wordprocessingml.document''}
      \<longrightarrow> \<not> validateFile file
        \<and> uploadDocument svc file config w0 =
            \<lparr>outcome = Inr \<lparr>fileName = name file, fileSize = size' file, totalChunks = 0,
                             processingTime = Date_now svc w0, status = error,
                             error' = Some unsupported_message\<rparr>,
             world = w0, calls = []\<rparr>)"
proof (intro conjI impI)
  assume ok: "type' file \<in> {''application/pdf'', ''text/plain'', ''text/markdown'', ''application/msword'',
        ''application/vnd.openxmlformats-officedocument.wordprocessingml.document''}"
  then show v: "validateFile file" by (simp only: validateFile_iff)
  obtain r w1 where p: "processDocument (documentProcessor svc) file
     \<lparr>opt_chunkSize = chunkSize config, opt_overlapSize = overlapSize config\<rparr> w0 = (r, w1)"
    by (cases "processDocument (documentProcessor svc) file
     \<lparr>opt_chunkSize = chunkSize config, opt_overlapSize = overlapSize config\<rparr> w0")
  from v p show "hd (calls (uploadDocument svc file config w0)) =
            Call_processDocument file
              \<lparr>opt_chunkSize = chunkSize config, opt_overlapSize = overlapSize config\<rparr>"
    by (simp add: uploadDocument_def try_block_def Let_def split: sum.splits prod.splits)
  from v p show "calls (uploadDocument svc file config w0) \<noteq> []"
    by (simp add: uploadDocument_def try_block_def Let_def split: sum.splits prod.splits)
next
  assume bad: "type' file \<notin> {''application/pdf'', ''text/plain'', ''text/markdown'', ''application/msword'',
        ''application/vnd.openxmlformats-officedocument.wordprocessingml.document''}"
  then show v: "\<not> validateFile file" by (simp only: validateFile_iff not_False_eq_True)
  then show "uploadDocument svc file config w0 =
            \<lparr>outcome = Inr \<lparr>fileName = name file, fileSize = size' file, totalChunks = 0,
                             processingTime = Date_now svc w0, status = error,
                             error' = Some unsupported_message\<rparr>,
             world = w0, calls = []\<rparr>"
    by (simp add: uploadDocument_def try_block_invalid catch_block_def)
qed

theorem uploadDocument_validates_declared_type_witness:
  "validateFile demo_file
   \<and> hd (calls (uploadDocument (demo_service AllOk (Some [''ab'', ''bc''])) demo_file demo_config demo_world0)) =
       Call_processDocument demo_file \<lparr>opt_chunkSize = 2, opt_overlapSize = 1\<rparr>
   \<and> \<not> validateFile demo_png
   \<and> uploadDocument (demo_service AllOk (Some [''ab'', ''bc''])) demo_png demo_config demo_world0 =
       \<lparr>outcome = Inr \<lparr>fileName = ''a.png'', fileSize = 1, totalChunks = 0,
                        processingTime = 1000, status = error,
                        error' = Some unsupported_message\<rparr>,
        world = demo_world0, calls = []\<rparr>"
proof -
  have is_txt: "type' demo_file \<in> {''application/pdf'', ''text/plain'', ''text/markdown'',
      ''application/msword'',
      ''application/vnd.openxmlformats-officedocument.wordprocessingml.document''}"
    by (simp add: demo_file_def)
  have is_png: "type' demo_png \<notin> {''application/pdf'', ''text/plain'', ''text/markdown'',
      ''application/msword'',
      ''application/vnd.openxmlformats-officedocument.wordprocessingml.document''}"
    by (simp add: demo_png_def)
  note accept = uploadDocument_validates_declared_type [of demo_file "demo_service AllOk (Some [''ab'', ''bc''])" demo_config demo_world0,
      THEN conjunct1, rule_format, OF is_txt]
  note reject = uploadDocument_validates_declared_type [of demo_png "demo_service AllOk (Some [''ab'', ''bc''])" demo_config demo_world0,
      THEN conjunct2, rule_format, OF is_png]
  from accept reject show ?thesis
    by (simp add: demo_defs)
qed

subsection \<open>The records handed to the store\<close>

text \<open>
  C3: in a run that reaches the storage step with \<open>n\<close> chunks and \<open>n\<close> vectors, the third
  and last call is \<^verbatim>\<open>storeVectors\<close>, with exactly \<open>n\<close> records; record \<open>i\<close> has the id
  \<^verbatim>\<open><fileName>-<i>\<close> (the index in decimal), the vector \<open>v\<^sub>i\<close>, the text \<open>c\<^sub>i\<close>, and
  the file name and \<open>i\<close> as metadata.
\<close>

theorem storeVectors_receives_record_per_chunk:
  assumes "validateFile file"
    and "processDocument (documentProcessor svc) file
           \<lparr>opt_chunkSize = chunkSize config, opt_overlapSize = overlapSize config\<rparr> w0 =
         (Inr pd, w1)"
    and "embedDocuments (embeddingManager svc) (textArray pd) w1 = (Inr vectors, w2)"
    and "length vectors = length (textArray pd)"
  shows "calls (uploadDocument svc file config w0) =
     [Call_processDocument file
        \<lparr>opt_chunkSize = chunkSize config, opt_overlapSize = overlapSize config\<rparr>,
      Call_embedDocuments (textArray pd),
      Call_storeVectors
        (map (\<lambda>i. \<lparr>id' = name file @ ''-'' @ decimal i,
                    vector = Some (vectors ! i),
                    payload = \<lparr>text' = textArray pd ! i,
                               metadata = \<lparr>source = name file, index = i\<rparr>\<rparr>\<rparr>)
           [0..<length (textArray pd)])]"
proof -
  obtain r w3 where
    "storeVectors (vectorStore svc) (vectorDocs file (textArray pd) vectors) w2 = (r, w3)"
    by (cases "storeVectors (vectorStore svc) (vectorDocs file (textArray pd) vectors) w2")
  with assms(1-3) have "calls (uploadDocument svc file config w0) =
     [Call_processDocument file
        \<lparr>opt_chunkSize = chunkSize config, opt_overlapSize = overlapSize config\<rparr>,
      Call_embedDocuments (textArray pd),
      Call_storeVectors (vectorDocs file (textArray pd) vectors)]"
    by (simp add: uploadDocument_calls try_block_store)
  moreover have "vectorDocs file (textArray pd) vectors =
     map (\<lambda>i. \<lparr>id' = name file @ ''-'' @ decimal i,
                    vector = Some (vectors ! i),
                    payload = \<lparr>text' = textArray pd ! i,
                               metadata = \<lparr>source = name file, index = i\<rparr>\<rparr>\<rparr>)
           [0..<length (textArray pd)]"
    using assms(4) by (simp add: vectorDocs_eq js_index_def)
  ultimately show ?thesis by simp
qed

theorem storeVectors_receives_record_per_chunk_witness:
  "calls (uploadDocument (demo_service AllOk (Some [''ab'', ''bc''])) demo_file demo_config demo_world0) =
     [Call_processDocument demo_file \<lparr>opt_chunkSize = 2, opt_overlapSize = 1\<rparr>,
      Call_embedDocuments [''ab'', ''bc''],
      Call_storeVectors
        [\<lparr>id' = ''a.txt-0'', vector = Some [2],
          payload = \<lparr>text' = ''ab'', metadata = \<lparr>source = ''a.txt'', index = 0\<rparr>\<rparr>\<rparr>,
         \<lparr>id' = ''a.txt-1'', vector = Some [2],
          payload = \<lparr>text' = ''bc'', metadata = \<lparr>source = ''a.txt'', index = 1\<rparr>\<rparr>\<rparr>]]"
proof -
  have parsed: "processDocument (documentProcessor (demo_service AllOk (Some [''ab'', ''bc'']))) demo_file
      \<lparr>opt_chunkSize = chunkSize demo_config, opt_overlapSize = overlapSize demo_config\<rparr>
      demo_world0 = (Inr \<lparr>chunks = Some [''ab'', ''bc'']\<rparr>, \<lparr>now_ms = 1005, stored = []\<rparr>)"
    by (rule demo_process) simp
  have embedded: "\<And>texts w. embedDocuments (embeddingManager (demo_service AllOk (Some [''ab'', ''bc''])))
      texts w = (Inr (map (\<lambda>t. [int (length t)]) texts), w\<lparr>now_ms := now_ms w + 40\<rparr>)"
    by (rule demo_embed) simp
  have same_length: "length (map (\<lambda>t. [int (length t)]) (textArray \<lparr>chunks = Some [''ab'', ''bc'']\<rparr>)) =
      length (textArray \<lparr>chunks = Some [''ab'', ''bc'']\<rparr>)"
    by simp
  from storeVectors_receives_record_per_chunk [OF demo_valid parsed embedded same_length]
  show ?thesis
    by (simp add: demo_defs textArray_def decimal_0 decimal_1 upt_rec)
qed

subsection \<open>The record of a successful run\<close>

text \<open>
  C4: when validation passes and the three collaborator calls succeed, the result is a
  \<open>completed\<close> record whose \<open>totalChunks\<close> is the number of chunks and whose
  \<open>processingTime\<close> is the clock reading at the end of the run.
\<close>

theorem uploadDocument_success_returns_completed:
  assumes "validateFile file"
    and "processDocument (documentProcessor svc) file
           \<lparr>opt_chunkSize = chunkSize config, opt_overlapSize = overlapSize config\<rparr> w0 =
         (Inr pd, w1)"
    and "embedDocuments (embeddingManager svc) (textArray pd) w1 = (Inr vectors, w2)"
    and "storeVectors (vectorStore svc) (vectorDocs file (textArray pd) vectors) w2 = (Inr u, w3)"
  shows "outcome (uploadDocument svc file config w0) =
     Inr \<lparr>fileName = name file, fileSize = size' file, totalChunks = length (textArray pd),
          processingTime = Date_now svc w3, status = completed, error' = None\<rparr>"
  using assms by (simp add: uploadDocument_def try_block_store)

theorem uploadDocument_success_returns_completed_witness:
  "outcome (uploadDocument (demo_service AllOk (Some [''ab'', ''bc''])) demo_file demo_config demo_world0) =
     Inr \<lparr>fileName = ''a.txt'', fileSize = 3, totalChunks = 2, processingTime = 1048,
          status = completed, error' = None\<rparr>"
proof -
  have parsed: "processDocument (documentProcessor (demo_service AllOk (Some [''ab'', ''bc'']))) demo_file
      \<lparr>opt_chunkSize = chunkSize demo_config, opt_overlapSize = overlapSize demo_config\<rparr>
      demo_world0 = (Inr \<lparr>chunks = Some [''ab'', ''bc'']\<rparr>, \<lparr>now_ms = 1005, stored = []\<rparr>)"
    by (rule demo_process) simp
  have embedded: "\<And>texts w. embedDocuments (embeddingManager (demo_service AllOk (Some [''ab'', ''bc''])))
      texts w = (Inr (map (\<lambda>t. [int (length t)]) texts), w\<lparr>now_ms := now_ms w + 40\<rparr>)"
    by (rule demo_embed) simp
  have kept: "\<And>docs w. storeVectors (vectorStore (demo_service AllOk (Some [''ab'', ''bc''])))
      docs w = (Inr (), w\<lparr>now_ms := now_ms w + 3, stored := stored w @ docs\<rparr>)"
    by (rule demo_store) simp
  from uploadDocument_success_returns_completed [OF demo_valid parsed embedded kept]
  show ?thesis
    by (simp add: demo_defs textArray_def)
qed

subsection \<open>Count and content of chunks\<close>

text \<open>
  C5: for a text of length \<open>L\<close> and \<open>0 \<le> O < C\<close> the Chunker returns
  \<open>\<lceil>(L - O) / (C - O)\<rceil>\<close> chunks when \<open>L > C\<close> and one chunk otherwise, and chunk \<open>i\<close> is the
  slice of the text from offset \<open>i * (C - O)\<close> of at most \<open>C\<close> characters.
\<close>

theorem Chunker_count_and_slices:
  assumes "overlapSize' < chunkSize'"
  shows "\<exists>cs. Chunker t chunkSize' overlapSize' = Inr cs
    \<and> length cs =
        (if chunkSize' < length t
         then nat \<lceil>real (length t - overlapSize') / real (chunkSize' - overlapSize')\<rceil>
         else 1)
    \<and> (\<forall>i < length cs.
          cs ! i = take chunkSize' (drop (i * (chunkSize' - overlapSize')) t))"
proof -
  let ?s = "chunkSize' - overlapSize'"
  let ?cs = "chunks_from t chunkSize' ?s 0"
  have s: "0 < ?s" using assms by simp
  have run: "Chunker t chunkSize' overlapSize' = Inr ?cs"
    using assms by (simp add: Chunker_def)
  have ceil: "nat \<lceil>real (length t - overlapSize') / real ?s\<rceil> =
      (length t - overlapSize' + ?s - 1) div ?s"
    using s by (rule nat_ceiling_div)
  have len: "length ?cs = Suc ((length t - chunkSize' + (?s - 1)) div ?s)"
    using chunks_from_length [OF s, of t chunkSize' 0] by simp
  have count: "length ?cs =
        (if chunkSize' < length t
         then nat \<lceil>real (length t - overlapSize') / real ?s\<rceil>
         else 1)"
  proof (cases "chunkSize' < length t")
    case True
    with assms have "length t - overlapSize' + ?s - 1 = (length t - chunkSize') + ?s + (?s - 1)"
      by simp
    then have "(length t - overlapSize' + ?s - 1) div ?s =
        Suc ((length t - chunkSize' + (?s - 1)) div ?s)"
      using div_step_nat [OF s, of "length t - chunkSize'"] by (simp only:)
    with True len ceil show ?thesis by (simp only: if_True)
  next
    case False
    with s len show ?thesis by simp
  qed
  have slices: "\<forall>i < length ?cs. ?cs ! i = take chunkSize' (drop (i * ?s) t)"
    using chunks_from_nth [OF s, of _ t chunkSize' 0] by simp
  from run count slices show ?thesis by blast
qed

theorem Chunker_count_and_slices_witness:
  "Chunker ''abcdefghij'' 4 1 = Inr [''abcd'', ''defg'', ''ghij'']
   \<and> Chunker ''abc'' 4 1 = Inr [''abc'']"
proof -
  have ok: "(1::nat) < 4" by simp
  from Chunker_count_and_slices [OF ok, of "''abcdefghij''"] obtain cs where
    run: "Chunker ''abcdefghij'' 4 1 = Inr cs" and
    n: "length cs = 3" and
    sl: "\<forall>i<length cs. cs ! i = take 4 (drop (i * (4 - 1)) ''abcdefghij'')"
    by auto
  from sl n have "cs ! 0 = ''abcd''" "cs ! 1 = ''defg''" "cs ! 2 = ''ghij''"
    by simp_all
  with n have "cs = [''abcd'', ''defg'', ''ghij'']"
    by (intro nth_equalityI) (auto simp: less_Suc_eq numeral_3_eq_3 numeral_2_eq_2)
  with run have long: "Chunker ''abcdefghij'' 4 1 = Inr [''abcd'', ''defg'', ''ghij'']"
    by simp
  from Chunker_count_and_slices [OF ok, of "''abc''"] obtain ds where
    run': "Chunker ''abc'' 4 1 = Inr ds" and
    n': "length ds = 1" and
    sl': "\<forall>i<length ds. ds ! i = take 4 (drop (i * (4 - 1)) ''abc'')"
    by auto
  from sl' n' have "ds ! 0 = ''abc''" by simp
  with n' have "ds = [''abc'']"
    by (intro nth_equalityI) auto
  with run' have short: "Chunker ''abc'' 4 1 = Inr [''abc'']"
    by simp
  from long short show ?thesis by (intro conjI)
qed

subsection \<open>An empty chunk list\<close>

text \<open>
  C6, as stated, fails: with an empty chunk list the service still calls
  \<^verbatim>\<open>embedDocuments\<close>, and when that call rejects (here an embedder that refuses an empty
  batch) the result is an \<open>error\<close> record.
\<close>

theorem uploadDocument_empty_chunks_can_fail:
  "validateFile demo_file
   \<and> processDocument (documentProcessor (demo_service EmbedRejectsEmpty (Some []))) demo_file
       \<lparr>opt_chunkSize = 2, opt_overlapSize = 1\<rparr> demo_world0 =
       (Inr \<lparr>chunks = Some []\<rparr>, \<lparr>now_ms = 1005, stored = []\<rparr>)
   \<and> uploadDocument (demo_service EmbedRejectsEmpty (Some [])) demo_file demo_config demo_world0 =
       \<lparr>outcome = Inr \<lparr>fileName = ''a.txt'', fileSize = 3, totalChunks = 0,
                        processingTime = 1045, status = error, error' = Some ''empty input''\<rparr>,
        world = \<lparr>now_ms = 1045, stored = []\<rparr>,
        calls = [Call_processDocument demo_file \<lparr>opt_chunkSize = 2, opt_overlapSize = 1\<rparr>,
                 Call_embedDocuments []]\<rparr>"
  by (simp add: run_defs demo_defs)

text \<open>
  C6, amended: an empty chunk list is not an error of its own. The service calls
  \<^verbatim>\<open>embedDocuments\<close> and \<^verbatim>\<open>storeVectors\<close> with empty lists, and returns a \<open>completed\<close>
  record with \<open>totalChunks = 0\<close> provided both calls succeed.
\<close>

theorem uploadDocument_empty_chunks_completes_if_steps_succeed:
  assumes "validateFile file"
    and "processDocument (documentProcessor svc) file
           \<lparr>opt_chunkSize = chunkSize config, opt_overlapSize = overlapSize config\<rparr> w0 =
         (Inr pd, w1)"
    and "textArray pd = []"
    and "embedDocuments (embeddingManager svc) [] w1 = (Inr vectors, w2)"
    and "storeVectors (vectorStore svc) [] w2 = (Inr u, w3)"
  shows "uploadDocument svc file config w0 =
     \<lparr>outcome = Inr \<lparr>fileName = name file, fileSize = size' file, totalChunks = 0,
                      processingTime = Date_now svc w3, status = completed, error' = None\<rparr>,
      world = w3,
      calls =
        [Call_processDocument file
           \<lparr>opt_chunkSize = chunkSize config, opt_overlapSize = overlapSize config\<rparr>,
         Call_embedDocuments [],
         Call_storeVectors []]\<rparr>"
proof -
  have docs: "vectorDocs file (textArray pd) vectors = []"
    using assms(3) by (simp add: vectorDocs_def)
  have embedded: "embedDocuments (embeddingManager svc) (textArray pd) w1 = (Inr vectors, w2)"
    using assms(3,4) by simp
  have stored_ok:
    "storeVectors (vectorStore svc) (vectorDocs file (textArray pd) vectors) w2 = (Inr u, w3)"
    using assms(5) docs by simp
  from try_block_store [OF assms(1) assms(2) embedded stored_ok] docs assms(3)
  show ?thesis
    by (simp add: uploadDocument_def)
qed

theorem uploadDocument_empty_chunks_completes_if_steps_succeed_witness:
  "uploadDocument (demo_service AllOk (Some [])) demo_file demo_config demo_world0 =
     \<lparr>outcome = Inr \<lparr>fileName = ''a.txt'', fileSize = 3, totalChunks = 0,
                      processingTime = 1048, status = completed, error' = None\<rparr>,
      world = \<lparr>now_ms = 1048, stored = []\<rparr>,
      calls = [Call_processDocument demo_file \<lparr>opt_chunkSize = 2, opt_overlapSize = 1\<rparr>,
               Call_embedDocuments [], Call_storeVectors []]\<rparr>"
proof -
  have parsed: "processDocument (documentProcessor (demo_service AllOk (Some []))) demo_file
      \<lparr>opt_chunkSize = chunkSize demo_config, opt_overlapSize = overlapSize demo_config\<rparr>
      demo_world0 = (Inr \<lparr>chunks = Some []\<rparr>, \<lparr>now_ms = 1005, stored = []\<rparr>)"
    by (rule demo_process) simp
  have none: "textArray \<lparr>chunks = Some []\<rparr> = []"
    by (simp add: textArray_def)
  have embedded: "\<And>w. embedDocuments (embeddingManager (demo_service AllOk (Some [])))
      [] w = (Inr [], w\<lparr>now_ms := now_ms w + 40\<rparr>)"
    by (simp add: demo_embed)
  have kept: "\<And>w. storeVectors (vectorStore (demo_service AllOk (Some [])))
      [] w = (Inr (), w\<lparr>now_ms := now_ms w + 3, stored := stored w @ []\<rparr>)"
    by (rule demo_store) simp
  from uploadDocument_empty_chunks_completes_if_steps_succeed [OF demo_valid parsed none embedded kept]
  show ?thesis
    by (simp add: demo_defs)
qed

subsection \<open>The read path\<close>

text \<open>
  C7: \<^verbatim>\<open>getDocumentStats\<close> and \<^verbatim>\<open>listDocuments\<close> of the service settle to what the same
  call on the vector store settles to, and leave the world the store leaves, whatever
  the file name and the world.
\<close>

theorem read_path_delegates_to_vectorStore:
  "getDocumentStats svc fileName' w = store_getDocumentStats (vectorStore svc) fileName' w
   \<and> listDocuments svc w = store_listDocuments (vectorStore svc) w"
  by (simp add: getDocumentStats_def listDocuments_def)

subsection \<open>Settings of the embedding manager\<close>

text \<open>
  C8: the embedding manager is built from the API key, the base URL and the model name
  of the environment; a variable that is unset gives the default, a variable set to a
  non-empty string gives that string.
\<close>

theorem constructor_embedding_settings:
  "(env ''DEEPSEEK_API_KEY'' = None \<longrightarrow>
      apiKey (embeddingManager (constructor cls env)) = ''mock-api-key'')
   \<and> (env ''DEEPSEEK_API_KEY'' = Some k \<and> k \<noteq> [] \<longrightarrow>
      apiKey (embeddingManager (constructor cls env)) = k)
   \<and> (env ''DEEPSEEK_API_BASE'' = None \<longrightarrow>
      apiBase (embeddingManager (constructor cls env)) = ''https://api.deepseek.com'')
   \<and> (env ''DEEPSEEK_API_BASE'' = Some b \<and> b \<noteq> [] \<longrightarrow>
      apiBase (embeddingManager (constructor cls env)) = b)
   \<and> (env ''EMBEDDING_MODEL'' = None \<longrightarrow>
      modelName (embeddingManager (constructor cls env)) = ''mock-embedding-model'')
   \<and> (env ''EMBEDDING_MODEL'' = Some m \<and> m \<noteq> [] \<longrightarrow>
      modelName (embeddingManager (constructor cls env)) = m)
   \<and> embedDocuments (embeddingManager (constructor cls env)) =
      new_EmbeddingManager_embedDocuments cls
        (apiKey (embeddingManager (constructor cls env)))
        (apiBase (embeddingManager (constructor cls env)))
        (modelName (embeddingManager (constructor cls env)))"
  by (simp add: constructor_def new_EmbeddingManager_def js_or_def)

theorem constructor_embedding_settings_witness:
  "apiKey (embeddingManager (constructor demo_classes Map.empty)) = ''mock-api-key''
   \<and> apiBase (embeddingManager (constructor demo_classes Map.empty)) = ''https://api.deepseek.com''
   \<and> modelName (embeddingManager (constructor demo_classes Map.empty)) = ''mock-embedding-model''
   \<and> apiKey (embeddingManager (constructor demo_classes demo_env)) = ''sk-1''
   \<and> apiBase (embeddingManager (constructor demo_classes demo_env)) = ''http://localhost:8080''
   \<and> modelName (embeddingManager (constructor demo_classes demo_env)) = ''text-embedding''"
proof -
  note unset = constructor_embedding_settings [of Map.empty demo_classes]
  note given = constructor_embedding_settings [of demo_env demo_classes "''sk-1''" "''http://localhost:8080''" "''text-embedding''"]
  from unset given show ?thesis
    by (simp add: demo_env_def)
qed

subsection \<open>Terminal status\<close>

text \<open>
  C9: a DocumentStats that \<^verbatim>\<open>uploadDocument\<close> returns has the status \<open>completed\<close> or
  \<open>error\<close>, never \<open>pending\<close> or \<open>processing\<close>.
\<close>

theorem uploadDocument_status_terminal:
  "outcome (uploadDocument svc file config w0) = Inr stats \<Longrightarrow>
   status stats = completed \<or> status stats = error"
  by (auto simp add: uploadDocument_def Let_def split: sum.splits
      dest: try_block_Inr_completed catch_block_Inr_error)

theorem uploadDocument_status_terminal_witness:
  "outcome (uploadDocument (demo_service AllOk (Some [''ab'', ''bc''])) demo_file demo_config demo_world0) =
     Inr \<lparr>fileName = ''a.txt'', fileSize = 3, totalChunks = 2, processingTime = 1048,
          status = completed, error' = None\<rparr>
   \<and> (status \<lparr>fileName = ''a.txt'', fileSize = 3, totalChunks = 2, processingTime = 1048,
          status = completed, error' = None\<rparr> = completed
      \<or> status \<lparr>fileName = ''a.txt'', fileSize = 3, totalChunks = 2, processingTime = 1048,
          status = completed, error' = None\<rparr> = error)"
proof -
  have ran: "outcome (uploadDocument (demo_service AllOk (Some [''ab'', ''bc''])) demo_file demo_config demo_world0) =
     Inr \<lparr>fileName = ''a.txt'', fileSize = 3, totalChunks = 2, processingTime = 1048,
          status = completed, error' = None\<rparr>"
    by (simp add: run_defs demo_defs)
  from ran uploadDocument_status_terminal [OF ran] show ?thesis by (intro conjI)
qed

subsection \<open>Fewer vectors than chunks\<close>

text \<open>
  C10: the lengths of the vector list and of the chunk list are not compared. When
  \<^verbatim>\<open>embedDocuments\<close> resolves to fewer vectors than chunks, \<^verbatim>\<open>storeVectors\<close> still gets
  one record per chunk, the records past the end of the vector list have no vector, and
  the run is \<open>completed\<close> if \<^verbatim>\<open>storeVectors\<close> accepts them.
\<close>

theorem uploadDocument_no_length_check:
  assumes "validateFile file"
    and "processDocument (documentProcessor svc) file
           \<lparr>opt_chunkSize = chunkSize config, opt_overlapSize = overlapSize config\<rparr> w0 =
         (Inr pd, w1)"
    and "embedDocuments (embeddingManager svc) (textArray pd) w1 = (Inr vectors, w2)"
    and "length vectors < length (textArray pd)"
    and "storeVectors (vectorStore svc) (vectorDocs file (textArray pd) vectors) w2 = (Inr u, w3)"
  shows "uploadDocument svc file config w0 =
     \<lparr>outcome = Inr \<lparr>fileName = name file, fileSize = size' file,
                      totalChunks = length (textArray pd),
                      processingTime = Date_now svc w3, status = completed, error' = None\<rparr>,
      world = w3,
      calls =
        [Call_processDocument file
           \<lparr>opt_chunkSize = chunkSize config, opt_overlapSize = overlapSize config\<rparr>,
         Call_embedDocuments (textArray pd),
         Call_storeVectors
           (map (\<lambda>i. \<lparr>id' = name file @ ''-'' @ decimal i,
                       vector = (if i < length vectors then Some (vectors ! i) else None),
                       payload = \<lparr>text' = textArray pd ! i,
                                  metadata = \<lparr>source = name file, index = i\<rparr>\<rparr>\<rparr>)
              [0..<length (textArray pd)])]\<rparr>"
  using assms(1,2,3,5) by (simp add: uploadDocument_def try_block_store vectorDocs_eq js_index_def)

theorem uploadDocument_no_length_check_witness:
  "uploadDocument (demo_service EmbedShort (Some [''ab'', ''bc''])) demo_file demo_config demo_world0 =
     \<lparr>outcome = Inr \<lparr>fileName = ''a.txt'', fileSize = 3, totalChunks = 2, processingTime = 1048,
          status = completed, error' = None\<rparr>,
      world = \<lparr>now_ms = 1048, stored =
        [\<lparr>id' = ''a.txt-0'', vector = Some [2],
          payload = \<lparr>text' = ''ab'', metadata = \<lparr>source = ''a.txt'', index = 0\<rparr>\<rparr>\<rparr>,
         \<lparr>id' = ''a.txt-1'', vector = None,
          payload = \<lparr>text' = ''bc'', metadata = \<lparr>source = ''a.txt'', index = 1\<rparr>\<rparr>\<rparr>]\<rparr>,
      calls =
        [Call_processDocument demo_file \<lparr>opt_chunkSize = 2, opt_overlapSize = 1\<rparr>,
         Call_embedDocuments [''ab'', ''bc''],
         Call_storeVectors
           [\<lparr>id' = ''a.txt-0'', vector = Some [2],
             payload = \<lparr>text' = ''ab'', metadata = \<lparr>source = ''a.txt'', index = 0\<rparr>\<rparr>\<rparr>,
            \<lparr>id' = ''a.txt-1'', vector = None,
             payload = \<lparr>text' = ''bc'', metadata = \<lparr>source = ''a.txt'', index = 1\<rparr>\<rparr>\<rparr>]]\<rparr>"
proof -
  have parsed: "processDocument (documentProcessor (demo_service EmbedShort (Some [''ab'', ''bc'']))) demo_file
      \<lparr>opt_chunkSize = chunkSize demo_config, opt_overlapSize = overlapSize demo_config\<rparr>
      demo_world0 = (Inr \<lparr>chunks = Some [''ab'', ''bc'']\<rparr>, \<lparr>now_ms = 1005, stored = []\<rparr>)"
    by (rule demo_process) simp
  have kept: "\<And>docs w. storeVectors (vectorStore (demo_service EmbedShort (Some [''ab'', ''bc''])))
      docs w = (Inr (), w\<lparr>now_ms := now_ms w + 3, stored := stored w @ docs\<rparr>)"
    by (rule demo_store) simp
  have embedded: "embedDocuments (embeddingManager (demo_service EmbedShort (Some [''ab'', ''bc''])))
      (textArray \<lparr>chunks = Some [''ab'', ''bc'']\<rparr>) \<lparr>now_ms = 1005, stored = []\<rparr> =
      (Inr [[2]], \<lparr>now_ms = 1045, stored = []\<rparr>)"
    by (simp add: demo_defs textArray_def)
  have shorter: "length [[2::int]] < length (textArray \<lparr>chunks = Some [''ab'', ''bc'']\<rparr>)"
    by (simp add: textArray_def)
  from uploadDocument_no_length_check [OF demo_valid parsed embedded shorter kept]
  show ?thesis
    by (simp add: demo_defs textArray_def vectorDocs_eq js_index_def decimal_0 decimal_1 upt_rec)
qed

section \<open>Further facts\<close>

subsection \<open>What the catch block does not catch\<close>

text \<open>
  The one way for \<^verbatim>\<open>uploadDocument\<close> to reject: a collaborator rejects with \<^verbatim>\<open>null\<close> or
  \<^verbatim>\<open>undefined\<close>, and reading \<^verbatim>\<open>error.message\<close> in the catch block raises a TypeError.
\<close>

lemma uploadDocument_null_rejection_escapes:
  "outcome (try_block svc file config w0) = Inl Nullish \<Longrightarrow>
   outcome (uploadDocument svc file config w0) = Inl TypeError"
  by (simp add: uploadDocument_def catch_block_def Let_def)

lemma uploadDocument_returns_unless_null_rejection:
  "outcome (try_block svc file config w0) \<noteq> Inl Nullish \<Longrightarrow>
   \<exists>stats. outcome (uploadDocument svc file config w0) = Inr stats"
  by (cases "outcome (try_block svc file config w0)")
     (auto simp add: uploadDocument_def catch_block_def Let_def split: thrown.splits)

lemma demo_null_rejection:
  "outcome (uploadDocument (demo_service ParseRejectsNull None) demo_file demo_config demo_world0) =
     Inl TypeError"
  by (simp add: run_defs demo_defs)

subsection \<open>Settings the service does not read, and empty settings\<close>

text \<open>
  \<^verbatim>\<open>config.model\<close> is not read by \<^verbatim>\<open>uploadDocument\<close>. An environment variable set to the
  empty string is falsy, so the default is used for it too.
\<close>

lemma uploadDocument_ignores_model:
  "uploadDocument svc file (config\<lparr>model := m\<rparr>) w0 = uploadDocument svc file config w0"
  by (simp add: uploadDocument_def try_block_def)

lemma constructor_empty_string_uses_default:
  "env ''DEEPSEEK_API_KEY'' = Some [] \<Longrightarrow>
   apiKey (embeddingManager (constructor cls env)) = ''mock-api-key''"
  "env ''DEEPSEEK_API_BASE'' = Some [] \<Longrightarrow>
   apiBase (embeddingManager (constructor cls env)) = ''https://api.deepseek.com''"
  "env ''EMBEDDING_MODEL'' = Some [] \<Longrightarrow>
   modelName (embeddingManager (constructor cls env)) = ''mock-embedding-model''"
  by (simp_all add: constructor_def new_EmbeddingManager_def js_or_def)

subsection \<open>The Chunker model against the other words of section 4.2\<close>

text \<open>
  The model fails with \<open>InvalidConfig\<close> when the overlap is not smaller than the chunk
  size; consecutive chunks share exactly \<open>overlapSize\<close> characters; and the text of 2500
  characters with chunks of 1000 and an overlap of 200 gives three chunks.
\<close>

lemma Chunker_invalid_config:
  "chunkSize' \<le> overlapSize' \<Longrightarrow> Chunker t chunkSize' overlapSize' = Inl InvalidConfig"
  by (simp add: Chunker_def)

lemma Chunker_overlap:
  assumes "ov < sz" and "Chunker t sz ov = Inr cs" and "Suc i < length cs"
  shows "drop (sz - ov) (cs ! i) = take ov (cs ! Suc i) \<and> length (take ov (cs ! Suc i)) = ov"
proof -
  let ?s = "sz - ov"
  have s: "0 < ?s" using assms(1) by simp
  have cs: "cs = chunks_from t sz ?s 0" using assms(1,2) by (simp add: Chunker_def)
  have a: "cs ! i = take sz (drop (i * ?s) t)"
    using chunks_from_nth [OF s, of i t sz 0] assms(3) cs by simp
  have b: "cs ! Suc i = take sz (drop (Suc i * ?s) t)"
    using chunks_from_nth [OF s, of "Suc i" t sz 0] assms(3) cs by simp
  have "drop ?s (take sz (drop (i * ?s) t)) = take (sz - ?s) (drop ?s (drop (i * ?s) t))"
    by (rule drop_take)
  also have "\<dots> = take ov (drop (Suc i * ?s) t)"
    using assms(1) by (simp add: add.commute)
  also have "\<dots> = take ov (take sz (drop (Suc i * ?s) t))"
    using assms(1) by (simp add: min_def)
  finally have shared: "drop ?s (cs ! i) = take ov (cs ! Suc i)"
    by (simp only: a b)
  have n: "length cs = Suc ((length t - sz + (?s - 1)) div ?s)"
    using chunks_from_length [OF s, of t sz 0] cs by simp
  with assms(3) have le: "Suc i \<le> (length t - sz + (?s - 1)) div ?s" by simp
  then have "Suc i * ?s \<le> length t - sz + (?s - 1)"
    using s by (simp add: less_eq_div_iff_mult_less_eq)
  moreover have "sz < length t"
  proof (rule ccontr)
    assume "\<not> sz < length t"
    then have "(length t - sz + (?s - 1)) div ?s = 0" using s by simp
    with le show False by simp
  qed
  ultimately have room: "Suc i * ?s + ov < length t" using assms(1) by arith
  define k where "k = Suc i * ?s"
  have "length (take ov (take sz (drop k t))) = min ov (min sz (length t - k))"
    by simp
  also have "\<dots> = ov"
  proof -
    from room have "k + ov < length t" by (simp only: k_def)
    with assms(1) show ?thesis by arith
  qed
  finally have "length (take ov (cs ! Suc i)) = ov"
    by (simp only: b k_def)
  with shared show ?thesis by simp
qed

lemma Chunker_scenario_2500:
  assumes "length t = 2500"
  shows "\<exists>cs. Chunker t 1000 200 = Inr cs \<and> length cs = 3"
proof -
  have "length (chunks_from t 1000 800 0) = Suc ((length t - (0 + 1000) + (800 - 1)) div 800)"
    by (rule chunks_from_length) simp
  with assms show ?thesis by (simp add: Chunker_def)
qed

end
